theory Spec2Isabelle
  imports Main
begin

section \<open>Data model (the SQLAlchemy models of app.py)\<close>

text \<open>
  Every model class of \<^verbatim>\<open>app.py\<close> is a record; the columns keep their names, prefixed
  where two classes share a column name. The \<^verbatim>\<open>created_at\<close>, \<^verbatim>\<open>updated_at\<close> and
  \<^verbatim>\<open>completed_at\<close> time stamps, the e-mail address and the password hash are left out:
  no operation below reads them. Primary keys are natural numbers, text columns are
  strings, a nullable column is an option.

  A text that the code only stores, compares or concatenates is a \<open>string\<close>. The message
  of a request is also stripped, measured and sliced, and these count Unicode code
  points: it is a \<open>pystr\<close>, the list of the code points of the Python \<^verbatim>\<open>str\<close>, and so is the
  title made from it.
\<close>

type_synonym pystr = "nat list"

record user =
  user_id :: nat
  username :: string
  role :: string
  user_department :: "string option"

record document =
  doc_id :: nat
  doc_title :: string
  doc_status :: string
  doc_submitter_id :: nat

record workflow_step =
  ws_id :: nat
  ws_document_id :: nat
  ws_step_order :: nat
  ws_approver_id :: nat
  ws_status :: string
  ws_comments :: "string option"

record approval =
  ap_id :: nat
  ap_document_id :: nat
  ap_approver_id :: nat
  ap_action :: string
  ap_comments :: string

record department_approver =
  da_id :: nat
  da_department :: string
  da_approver_id :: nat
  da_is_active :: bool

record request =
  req_id :: nat
  title :: pystr
  message :: pystr
  department :: string
  status :: string
  priority :: string
  submitter_id :: nat
  department_approver_id :: "nat option"
  admin_approver_id :: "nat option"

record request_approval =
  ra_id :: nat
  ra_request_id :: nat
  ra_approver_id :: nat
  approval_level :: string
  action :: string
  comments :: string

record workflow_flow_display =
  wfd_id :: nat
  wfd_request_id :: nat
  step_number :: nat
  step_name :: string
  wfd_user_id :: nat
  wfd_username :: string
  wfd_role :: string
  wfd_department :: "string option"
  wfd_status :: string

text \<open>
  The store: one list of rows per table, in insertion order, and for every table that
  an operation below inserts into, the next value of its identity column.
\<close>

record db =
  users :: "user list"
  documents :: "document list"
  workflow_steps :: "workflow_step list"
  approvals :: "approval list"
  department_approvers :: "department_approver list"
  requests :: "request list"
  request_approvals :: "request_approval list"
  workflow_flow :: "workflow_flow_display list"
  next_approval_id :: nat
  next_department_approver_id :: nat
  next_request_id :: nat
  next_request_approval_id :: nat
  next_workflow_flow_id :: nat

text \<open>
  What a route handler answers. The handlers answer with an HTTP status and a message;
  each error below is one of the error answers of the source:
  \<^item> \<open>AccessDenied\<close>: 403 "Access denied" (the caller is not an admin);
  \<^item> \<open>NotAuthorized\<close>: 403 "You are not authorized to approve this request", and the
    flash message "You are not authorized to approve this document";
  \<^item> \<open>NoPermission\<close>: the flash message "You do not have permission to approve documents";
  \<^item> \<open>MissingFields\<close>: 400 "... are required";
  \<^item> \<open>NoApproverFound\<close>: 404 "No approver found for ... department";
  \<^item> \<open>UserNotFound\<close>: 404 "User not found";
  \<^item> \<open>DuplicateApprover\<close>: 400 "Department ... already has an approver";
  \<^item> \<open>ServerError\<close>: 500, an exception caught by the handler's \<^verbatim>\<open>except Exception\<close>
    (or, in \<^verbatim>\<open>approve_document\<close>, not caught at all).
\<close>

datatype error =
    AccessDenied
  | NotAuthorized
  | NoPermission
  | MissingFields
  | NoApproverFound
  | UserNotFound
  | DuplicateApprover
  | ServerError

datatype response = Success | Failure error

section \<open>Queries\<close>

text \<open>\<^verbatim>\<open>Model.query.filter_by(...).first()\<close>: the first row of the table that matches.\<close>

definition first :: "('a \<Rightarrow> bool) \<Rightarrow> 'a list \<Rightarrow> 'a option" where
  "first P rows = find P rows"

text \<open>
  Assigning to attributes of an object returned by \<^verbatim>\<open>first()\<close> or \<^verbatim>\<open>get()\<close>: the first
  matching row is replaced by its update, the other rows stay.
\<close>

fun update_first :: "('a \<Rightarrow> bool) \<Rightarrow> ('a \<Rightarrow> 'a) \<Rightarrow> 'a list \<Rightarrow> 'a list" where
  "update_first P f [] = []"
| "update_first P f (x # xs) = (if P x then f x # xs else x # update_first P f xs)"

text \<open>\<^verbatim>\<open>data.get(key, default)\<close> on the JSON body.\<close>

definition data_get :: "'a option \<Rightarrow> 'a \<Rightarrow> 'a" where
  "data_get v dflt = (case v of None \<Rightarrow> dflt | Some x \<Rightarrow> x)"

section \<open>approve\_request\<close>

text \<open>
  \<^verbatim>\<open>db.session.add(RequestApproval(...))\<close>: the row gets the next identity value and goes
  to the end of the table.
\<close>

definition add_request_approval ::
  "nat \<Rightarrow> nat \<Rightarrow> string \<Rightarrow> string \<Rightarrow> string \<Rightarrow> db \<Rightarrow> db" where
  "add_request_approval rid uid level act cmt d =
     d\<lparr>request_approvals := request_approvals d @
          [\<lparr>ra_id = next_request_approval_id d, ra_request_id = rid, ra_approver_id = uid,
            approval_level = level, action = act, comments = cmt\<rparr>],
       next_request_approval_id := Suc (next_request_approval_id d)\<rparr>"

text \<open>
  The authorisation check at the head of \<^verbatim>\<open>approve_request\<close>: the pair
  \<^verbatim>\<open>(can_approve, approval_level)\<close> after the \<^verbatim>\<open>if/elif/else\<close>.
\<close>

definition check_can_approve :: "db \<Rightarrow> user \<Rightarrow> request \<Rightarrow> bool \<times> string option" where
  "check_can_approve d current_user request_obj =
     (if role current_user = ''admin'' then (True, Some ''admin'')
      else if username current_user = ''general_approver'' then
        (if status request_obj = ''pending'' then (True, Some ''general'') else (False, None))
      else
        (case first (\<lambda>a. da_approver_id a = user_id current_user
                          \<and> da_department a = department request_obj
                          \<and> da_is_active a) (department_approvers d) of
           Some department_approver \<Rightarrow>
             (if status request_obj = ''general_approved'' then (True, Some ''department'')
              else (False, None))
         | None \<Rightarrow> (False, None)))"

text \<open>Setting the status of one row of the flow display, when the query finds one.\<close>

definition set_flow_status ::
  "(workflow_flow_display \<Rightarrow> bool) \<Rightarrow> string \<Rightarrow> db \<Rightarrow> db" where
  "set_flow_status P st d =
     d\<lparr>workflow_flow := update_first P (\<lambda>f. f\<lparr>wfd_status := st\<rparr>) (workflow_flow d)\<rparr>"

definition is_general_flow :: "nat \<Rightarrow> workflow_flow_display \<Rightarrow> bool" where
  "is_general_flow rid f \<longleftrightarrow>
     wfd_request_id f = rid \<and> step_number f = 1 \<and> step_name f = ''General Approver''"

definition is_dept_flow :: "nat \<Rightarrow> workflow_flow_display \<Rightarrow> bool" where
  "is_dept_flow rid f \<longleftrightarrow> wfd_request_id f = rid \<and> step_number f = 2"

definition is_admin_flow :: "nat \<Rightarrow> workflow_flow_display \<Rightarrow> bool" where
  "is_admin_flow rid f \<longleftrightarrow>
     wfd_request_id f = rid \<and> step_number f = 3 \<and> step_name f = ''Admin Approver''"

definition set_request :: "nat \<Rightarrow> (request \<Rightarrow> request) \<Rightarrow> db \<Rightarrow> db" where
  "set_request rid f d = d\<lparr>requests := update_first (\<lambda>r. req_id r = rid) f (requests d)\<rparr>"

text \<open>The "Update request status" part of \<^verbatim>\<open>approve_request\<close>.\<close>

definition update_request_status :: "user \<Rightarrow> nat \<Rightarrow> string \<Rightarrow> string \<Rightarrow> db \<Rightarrow> db" where
  "update_request_status current_user rid level act d =
     (if act = ''approve'' then
        (if level = ''general'' then
           set_flow_status (is_general_flow rid) ''approved''
             (set_request rid (\<lambda>r. r\<lparr>status := ''general_approved''\<rparr>) d)
         else if level = ''department'' then
           set_flow_status (is_dept_flow rid) ''approved''
             (set_request rid (\<lambda>r. r\<lparr>status := ''department_approved'',
                                      department_approver_id := Some (user_id current_user)\<rparr>) d)
         else if level = ''admin'' then
           set_flow_status (is_admin_flow rid) ''approved''
             (set_request rid (\<lambda>r. r\<lparr>status := ''admin_approved'',
                                      admin_approver_id := Some (user_id current_user)\<rparr>) d)
         else d)
      else if act = ''reject'' then
        (let d' = set_request rid (\<lambda>r. r\<lparr>status := ''rejected''\<rparr>) d in
         if level = ''general'' then set_flow_status (is_general_flow rid) ''rejected'' d'
         else if level = ''department'' then set_flow_status (is_dept_flow rid) ''rejected'' d'
         else if level = ''admin'' then set_flow_status (is_admin_flow rid) ''rejected'' d'
         else d')
      else d)"

text \<open>
  \<^verbatim>\<open>approve_request(request_id)\<close>, called by \<open>current_user\<close> with the JSON body
  \<^verbatim>\<open>{action, comments}\<close> (each key may be missing). \<^verbatim>\<open>get_or_404\<close> raises inside the
  \<^verbatim>\<open>try\<close>, so a missing request is answered with 500. Nothing is written before the
  authorisation check, and a failed call leaves the store as it was.
\<close>

definition approve_request ::
  "db \<Rightarrow> user \<Rightarrow> nat \<Rightarrow> string option \<Rightarrow> string option \<Rightarrow> response \<times> db" where
  "approve_request d current_user request_id data_action data_comments =
     (case first (\<lambda>r. req_id r = request_id) (requests d) of
        None \<Rightarrow> (Failure ServerError, d)
      | Some request_obj \<Rightarrow>
          (let act = data_get data_action ''approve'';
               cmt = data_get data_comments '''';
               (can_approve, level_opt) = check_can_approve d current_user request_obj
           in if \<not> can_approve then (Failure NotAuthorized, d)
              else (case level_opt of
                      None \<Rightarrow> (Failure ServerError, d)
                    | Some level \<Rightarrow>
                        (Success,
                         update_request_status current_user request_id level act
                           (add_request_approval request_id (user_id current_user)
                              level act cmt d)))))"

section \<open>create\_request\<close>

text \<open>A literal of the source, all of whose characters are ASCII, as a \<open>pystr\<close>.\<close>

definition pystr_of :: "string \<Rightarrow> pystr" where
  "pystr_of s = map of_char s"

text \<open>
  \<^verbatim>\<open>str.strip()\<close> removes the white space at both ends: the code points that
  \<^verbatim>\<open>str.isspace\<close> accepts, which are the 29 below (the ASCII controls 9 to 13 and 28 to
  31, the space, U+0085, U+00A0, U+1680, U+2000 to U+200A, U+2028, U+2029, U+202F,
  U+205F and U+3000).
\<close>

definition isspace :: "nat \<Rightarrow> bool" where
  "isspace c \<longleftrightarrow>
     c \<in> set [0x09, 0x0A, 0x0B, 0x0C, 0x0D, 0x1C, 0x1D, 0x1E, 0x1F, 0x20, 0x85, 0xA0,
               0x1680, 0x2000, 0x2001, 0x2002, 0x2003, 0x2004, 0x2005, 0x2006, 0x2007,
               0x2008, 0x2009, 0x200A, 0x2028, 0x2029, 0x202F, 0x205F, 0x3000]"

definition strip :: "pystr \<Rightarrow> pystr" where
  "strip s = rev (dropWhile isspace (rev (dropWhile isspace s)))"

text \<open>
  Python's \<^verbatim>\<open>not v\<close> on an optional string: true for \<^verbatim>\<open>None\<close> and for the empty
  string.
\<close>

definition py_not :: "'a list option \<Rightarrow> bool" where
  "py_not v = (case v of None \<Rightarrow> True | Some s \<Rightarrow> s = [])"

definition add_workflow_flow ::
  "nat \<Rightarrow> nat \<Rightarrow> string \<Rightarrow> user \<Rightarrow> string \<Rightarrow> string option \<Rightarrow> string \<Rightarrow> db \<Rightarrow> db" where
  "add_workflow_flow rid num name u rl dept st d =
     d\<lparr>workflow_flow := workflow_flow d @
          [\<lparr>wfd_id = next_workflow_flow_id d, wfd_request_id = rid, step_number = num,
            step_name = name, wfd_user_id = user_id u, wfd_username = username u,
            wfd_role = rl, wfd_department = dept, wfd_status = st\<rparr>],
       next_workflow_flow_id := Suc (next_workflow_flow_id d)\<rparr>"

text \<open>
  \<^verbatim>\<open>db.session.add(new_request); db.session.commit()\<close>: the request gets the next
  identity value; \<open>status\<close> takes the column default \<^verbatim>\<open>'pending'\<close>, \<open>admin_approver_id\<close>
  is NULL.
\<close>

definition add_request ::
  "pystr \<Rightarrow> pystr \<Rightarrow> string \<Rightarrow> nat \<Rightarrow> nat \<Rightarrow> string \<Rightarrow> db \<Rightarrow> db" where
  "add_request ttl msg dept submitter approver prio d =
     d\<lparr>requests := requests d @
          [\<lparr>req_id = next_request_id d, title = ttl, message = msg, department = dept,
            status = ''pending'', priority = prio, submitter_id = submitter,
            department_approver_id = Some approver, admin_approver_id = None\<rparr>],
       next_request_id := Suc (next_request_id d)\<rparr>"

text \<open>
  An optional step of the workflow: the source writes \<^verbatim>\<open>if general_approver: ...\<close>,
  \<^verbatim>\<open>if admin_approver: ...\<close>, \<^verbatim>\<open>if dept_user: ...\<close>; nothing is written when the user
  was not found.
\<close>

definition when_found :: "'a option \<Rightarrow> ('a \<Rightarrow> db \<Rightarrow> db) \<Rightarrow> db \<Rightarrow> db" where
  "when_found v f d = (case v of None \<Rightarrow> d | Some x \<Rightarrow> f x d)"

text \<open>
  \<^verbatim>\<open>create_request()\<close>, called by \<open>current_user\<close> with the JSON body
  \<^verbatim>\<open>{message, department, priority}\<close>. The writes follow the source's order. The last
  line of the handler reads the user name of the department approver for the answer,
  after the last commit: when that user row is missing the answer is 500 and the rows
  stay written.
\<close>

definition create_request ::
  "db \<Rightarrow> user \<Rightarrow> pystr option \<Rightarrow> string option \<Rightarrow> string option \<Rightarrow> response \<times> db" where
  "create_request d current_user data_message data_department data_priority =
     (let msg = strip (data_get data_message []);
          prio = data_get data_priority ''normal''
      in if py_not (Some msg) \<or> py_not data_department then (Failure MissingFields, d)
         else
           (let dept = data_get data_department '''' in
            case first (\<lambda>a. da_department a = dept \<and> da_is_active a) (department_approvers d) of
              None \<Rightarrow> (Failure NoApproverFound, d)
            | Some department_approver \<Rightarrow>
                (let request_title =
                       pystr_of ''Request: '' @ take 50 msg
                         @ (if length msg > 50 then pystr_of ''...'' else []);
                     new_id = next_request_id d;
                     d1 = add_request request_title msg dept (user_id current_user)
                            (da_approver_id department_approver) prio d;
                     general_approver = first (\<lambda>u. username u = ''general_approver'') (users d);
                     d2 = when_found general_approver
                            (\<lambda>g. add_request_approval new_id (user_id g) ''general'' ''pending''
                                   ''Request submitted and routed to General Approver (Step 1)'') d1;
                     d3 = add_request_approval new_id (da_approver_id department_approver)
                            ''department'' ''pending''
                            (''Request routed to '' @ dept @ '' Department Approver (Step 2)'') d2;
                     admin_approver = first (\<lambda>u. role u = ''admin'') (users d);
                     d4 = when_found admin_approver
                            (\<lambda>a. add_request_approval new_id (user_id a) ''admin'' ''pending''
                                   ''Request routed to Admin Approver (Step 3)'') d3;
                     d5 = add_workflow_flow new_id 0 ''User (Submitter)'' current_user ''user''
                            (user_department current_user) ''completed'' d4;
                     d6 = when_found general_approver
                            (\<lambda>g. add_workflow_flow new_id 1 ''General Approver'' g
                                   ''general_approver'' (Some ''General'') ''pending'') d5;
                     dept_user = first (\<lambda>u. user_id u = da_approver_id department_approver)
                                   (users d);
                     d7 = when_found dept_user
                            (\<lambda>u. add_workflow_flow new_id 2 (dept @ '' Department Approver'') u
                                   ''department_approver'' (Some dept) ''pending'') d6;
                     d8 = when_found admin_approver
                            (\<lambda>a. add_workflow_flow new_id 3 ''Admin Approver'' a
                                   ''admin'' (Some ''Admin'') ''pending'') d7
                 in case dept_user of
                      None \<Rightarrow> (Failure ServerError, d8)
                    | Some u \<Rightarrow> (Success, d8))))"

section \<open>Department approvers\<close>

text \<open>
  \<^verbatim>\<open>create_department_approver()\<close> with the JSON body \<^verbatim>\<open>{department, approver_id}\<close>.
  \<^verbatim>\<open>not approver_id\<close> is true for a missing key and for 0. The table declares
  \<^verbatim>\<open>UniqueConstraint('department', 'approver_id')\<close>: the commit of a row whose pair is
  already in the table, active or not, raises, and the handler answers 500.
\<close>

definition create_department_approver ::
  "db \<Rightarrow> user \<Rightarrow> string option \<Rightarrow> nat option \<Rightarrow> response \<times> db" where
  "create_department_approver d current_user data_department data_approver_id =
     (if role current_user \<noteq> ''admin'' then (Failure AccessDenied, d)
      else if py_not data_department \<or> data_approver_id = None \<or> data_approver_id = Some 0
        then (Failure MissingFields, d)
      else
        (let dept = data_get data_department ''''; approver_id = data_get data_approver_id 0 in
         case first (\<lambda>u. user_id u = approver_id) (users d) of
           None \<Rightarrow> (Failure UserNotFound, d)
         | Some u \<Rightarrow>
             (case first (\<lambda>a. da_department a = dept \<and> da_is_active a)
                     (department_approvers d) of
                Some existing_approver \<Rightarrow> (Failure DuplicateApprover, d)
              | None \<Rightarrow>
                  (case first (\<lambda>a. da_department a = dept \<and> da_approver_id a = approver_id)
                          (department_approvers d) of
                     Some same_pair \<Rightarrow> (Failure ServerError, d)
                   | None \<Rightarrow>
                       (Success,
                        d\<lparr>department_approvers := department_approvers d @
                             [\<lparr>da_id = next_department_approver_id d, da_department = dept,
                               da_approver_id = approver_id, da_is_active = True\<rparr>],
                          next_department_approver_id :=
                            Suc (next_department_approver_id d)\<rparr>)))))"

text \<open>
  \<^verbatim>\<open>delete_department_approver(approver_id)\<close>: the argument is the primary key of the
  mapping; the row is kept and its \<open>is_active\<close> flag is cleared.
\<close>

definition delete_department_approver :: "db \<Rightarrow> user \<Rightarrow> nat \<Rightarrow> response \<times> db" where
  "delete_department_approver d current_user approver_id =
     (if role current_user \<noteq> ''admin'' then (Failure AccessDenied, d)
      else case first (\<lambda>a. da_id a = approver_id) (department_approvers d) of
             None \<Rightarrow> (Failure ServerError, d)
           | Some approver \<Rightarrow>
               (Success,
                d\<lparr>department_approvers :=
                    update_first (\<lambda>a. da_id a = approver_id) (\<lambda>a. a\<lparr>da_is_active := False\<rparr>)
                      (department_approvers d)\<rparr>))"

section \<open>delete\_request\<close>

text \<open>
  \<^verbatim>\<open>delete_request(request_id)\<close>: the two statements of the source, a bulk delete of the
  approvals of the request and the delete of the request row, then the commit. The
  handler deletes nothing from the flow display. That table declares
  \<^verbatim>\<open>request_id = db.Column(db.Integer, db.ForeignKey('requests.id'), nullable=False)\<close>,
  and \<^verbatim>\<open>Request.workflow_flow\<close> is a relationship with no delete cascade: while a row of
  the flow display refers to the request, the request row cannot go (the column can
  neither be set to NULL nor keep a reference to a row that is gone), the commit raises,
  the handler answers 500, and nothing of the transaction, the bulk delete included, is
  committed.
\<close>

definition delete_request :: "db \<Rightarrow> user \<Rightarrow> nat \<Rightarrow> response \<times> db" where
  "delete_request d current_user request_id =
     (if role current_user \<noteq> ''admin'' then (Failure AccessDenied, d)
      else case first (\<lambda>r. req_id r = request_id) (requests d) of
             None \<Rightarrow> (Failure ServerError, d)
           | Some request_obj \<Rightarrow>
               (case first (\<lambda>f. wfd_request_id f = request_id) (workflow_flow d) of
                  Some referring_row \<Rightarrow> (Failure ServerError, d)
                | None \<Rightarrow>
                    (Success,
                     d\<lparr>request_approvals :=
                         filter (\<lambda>a. ra_request_id a \<noteq> request_id) (request_approvals d),
                       requests := filter (\<lambda>r. req_id r \<noteq> request_id) (requests d)\<rparr>)))"

section \<open>approve\_document\<close>

text \<open>
  \<^verbatim>\<open>approve_document(doc_id)\<close> with the form fields \<^verbatim>\<open>action\<close> and \<^verbatim>\<open>comments\<close>. The
  step's status is assigned the action string itself. The two counts run after the
  step was updated (the session flushes before a query). \<^verbatim>\<open>Document.query.get\<close> of a
  missing document is \<^verbatim>\<open>None\<close>, and the assignment to its status raises before the
  commit.
\<close>

definition approve_document :: "db \<Rightarrow> user \<Rightarrow> nat \<Rightarrow> string \<Rightarrow> string \<Rightarrow> response \<times> db" where
  "approve_document d current_user did act cmt =
     (if role current_user \<notin> set [''admin'', ''approver''] then (Failure NoPermission, d)
      else
        (let mine = (\<lambda>s. ws_document_id s = did \<and> ws_approver_id s = user_id current_user
                          \<and> ws_status s = ''pending'') in
         case first mine (workflow_steps d) of
           None \<Rightarrow> (Failure NotAuthorized, d)
         | Some workflow_step \<Rightarrow>
             (let d1 = d\<lparr>approvals := approvals d @
                           [\<lparr>ap_id = next_approval_id d, ap_document_id = did,
                             ap_approver_id = user_id current_user, ap_action = act,
                             ap_comments = cmt\<rparr>],
                         next_approval_id := Suc (next_approval_id d)\<rparr>;
                  d2 = d1\<lparr>workflow_steps :=
                            update_first mine (\<lambda>s. s\<lparr>ws_status := act, ws_comments := Some cmt\<rparr>)
                              (workflow_steps d1)\<rparr>;
                  pending_steps = length (filter (\<lambda>s. ws_document_id s = did
                                                      \<and> ws_status s = ''pending'')
                                            (workflow_steps d2))
              in if pending_steps = 0 then
                   (let rejected_steps = length (filter (\<lambda>s. ws_document_id s = did
                                                             \<and> ws_status s = ''rejected'')
                                                   (workflow_steps d2));
                        new_status = (if rejected_steps > 0 then ''rejected'' else ''approved'')
                    in case first (\<lambda>x. doc_id x = did) (documents d2) of
                         None \<Rightarrow> (Failure ServerError, d)
                       | Some doc \<Rightarrow>
                           (Success,
                            d2\<lparr>documents :=
                                 update_first (\<lambda>x. doc_id x = did)
                                   (\<lambda>x. x\<lparr>doc_status := new_status\<rparr>) (documents d2)\<rparr>))
                 else (Success, d2))))"

section \<open>The operations as one step function\<close>

text \<open>
  A call of one of the handlers above, with its caller and its arguments, and the store
  after it.
\<close>

datatype operation =
    CreateRequest user "pystr option" "string option" "string option"
  | ApproveRequest user nat "string option" "string option"
  | DeleteRequest user nat
  | CreateDepartmentApprover user "string option" "nat option"
  | DeleteDepartmentApprover user nat
  | ApproveDocument user nat string string

fun apply_op :: "operation \<Rightarrow> db \<Rightarrow> response \<times> db" where
  "apply_op (CreateRequest u m dept p) d = create_request d u m dept p"
| "apply_op (ApproveRequest u rid a c) d = approve_request d u rid a c"
| "apply_op (DeleteRequest u rid) d = delete_request d u rid"
| "apply_op (CreateDepartmentApprover u dept aid) d = create_department_approver d u dept aid"
| "apply_op (DeleteDepartmentApprover u k) d = delete_department_approver d u k"
| "apply_op (ApproveDocument u did a c) d = approve_document d u did a c"

section \<open>The vocabulary of the specification\<close>

text \<open>\<^verbatim>\<open>Request.query.get(request_id)\<close>, and the status of that request.\<close>

definition get_request :: "db \<Rightarrow> nat \<Rightarrow> request option" where
  "get_request d rid = first (\<lambda>r. req_id r = rid) (requests d)"

definition request_status :: "db \<Rightarrow> nat \<Rightarrow> string option" where
  "request_status d rid = map_option status (get_request d rid)"

text \<open>
  The state machine of the specification, in the specification's words: the chain
  \<open>pending \<rightarrow> general_approved \<rightarrow> department_approved \<rightarrow> admin_approved\<close>, the terminal
  states \<open>admin_approved\<close> and \<open>rejected\<close>, and a move that is forward along the chain, a
  jump to \<open>rejected\<close> from a state that is not terminal, or no move at all.
\<close>

definition stage_rank :: "string \<Rightarrow> nat option" where
  "stage_rank s =
     (if s = ''pending'' then Some 0
      else if s = ''general_approved'' then Some 1
      else if s = ''department_approved'' then Some 2
      else if s = ''admin_approved'' then Some 3
      else None)"

definition terminal :: "string \<Rightarrow> bool" where
  "terminal s \<longleftrightarrow> s = ''admin_approved'' \<or> s = ''rejected''"

definition spec_forward :: "string \<Rightarrow> string \<Rightarrow> bool" where
  "spec_forward old new \<longleftrightarrow>
     new = old
     \<or> (case (stage_rank old, stage_rank new) of (Some i, Some j) \<Rightarrow> i < j | _ \<Rightarrow> False)
     \<or> (new = ''rejected'' \<and> stage_rank old \<in> set [Some 0, Some 1, Some 2])"

text \<open>
  The authorisation rule of the specification, in the specification's words: the general
  approver acts on a pending request, the active department approver of the request's
  department on a request approved by the general approver, an admin at any stage.
\<close>

definition is_active_department_approver :: "db \<Rightarrow> user \<Rightarrow> string \<Rightarrow> bool" where
  "is_active_department_approver d u dept \<longleftrightarrow>
     list_ex (\<lambda>a. da_approver_id a = user_id u \<and> da_department a = dept \<and> da_is_active a)
       (department_approvers d)"

text \<open>
  The approval level at which a caller acts: an admin at level \<open>admin\<close>, the general
  approver at level \<open>general\<close>, anyone else at level \<open>department\<close>.
\<close>

definition acting_level :: "user \<Rightarrow> string" where
  "acting_level u =
     (if role u = ''admin'' then ''admin''
      else if username u = ''general_approver'' then ''general''
      else ''department'')"

definition spec_may_act :: "db \<Rightarrow> user \<Rightarrow> request \<Rightarrow> bool" where
  "spec_may_act d u r \<longleftrightarrow>
     role u = ''admin''
     \<or> (status r = ''pending'' \<and> username u = ''general_approver'')
     \<or> (status r = ''general_approved'' \<and> is_active_department_approver d u (department r))"

section \<open>A small installation\<close>

text \<open>
  Four of the accounts that \<^verbatim>\<open>init_db\<close> creates, the mapping of the IT department to
  its approver, and no request yet.
\<close>

definition admin_user :: user where
  "admin_user = \<lparr>user_id = 1, username = ''admin'', role = ''admin'',
                  user_department = Some ''IT''\<rparr>"

definition general_user :: user where
  "general_user = \<lparr>user_id = 2, username = ''general_approver'', role = ''approver'',
                    user_department = Some ''General''\<rparr>"

definition it_user :: user where
  "it_user = \<lparr>user_id = 3, username = ''it_approver'', role = ''approver'',
               user_department = Some ''IT''\<rparr>"

definition plain_user :: user where
  "plain_user = \<lparr>user_id = 4, username = ''user1'', role = ''user'',
                  user_department = Some ''Sales''\<rparr>"

definition db0 :: db where
  "db0 = \<lparr>users = [admin_user, general_user, it_user, plain_user],
          documents = [], workflow_steps = [], approvals = [],
          department_approvers =
            [\<lparr>da_id = 1, da_department = ''IT'', da_approver_id = 3, da_is_active = True\<rparr>],
          requests = [], request_approvals = [], workflow_flow = [],
          next_approval_id = 1, next_department_approver_id = 2, next_request_id = 1,
          next_request_approval_id = 1, next_workflow_flow_id = 1\<rparr>"

text \<open>The store after \<open>user1\<close> has submitted a request to the IT department.\<close>

definition db_created :: db where
  "db_created =
     snd (create_request db0 plain_user (Some (pystr_of ''Need a laptop'')) (Some ''IT'') None)"

text \<open>... after the general approver has approved it, or rejected it.\<close>

definition db_general :: db where
  "db_general = snd (approve_request db_created general_user 1 (Some ''approve'') None)"

definition db_rejected :: db where
  "db_rejected = snd (approve_request db_created general_user 1 (Some ''reject'') None)"

text \<open>... after the admin has approved it directly.\<close>

definition db_admin :: db where
  "db_admin = snd (approve_request db_created admin_user 1 (Some ''approve'') None)"



text \<open>The installation without the \<open>general_approver\<close> account.\<close>

definition db_no_general :: db where
  "db_no_general = db0\<lparr>users := [admin_user, it_user, plain_user]\<rparr>"

text \<open>
  A document as \<^verbatim>\<open>new_document\<close> leaves it: two approver steps and the admin step, all
  pending.
\<close>

definition db_doc :: db where
  "db_doc = db0\<lparr>documents := [\<lparr>doc_id = 1, doc_title = ''Contract'', doc_status = ''pending'',
                                 doc_submitter_id = 4\<rparr>],
               workflow_steps :=
                 [\<lparr>ws_id = 1, ws_document_id = 1, ws_step_order = 1, ws_approver_id = 2,
                   ws_status = ''pending'', ws_comments = None\<rparr>,
                  \<lparr>ws_id = 2, ws_document_id = 1, ws_step_order = 2, ws_approver_id = 3,
                   ws_status = ''pending'', ws_comments = None\<rparr>,
                  \<lparr>ws_id = 3, ws_document_id = 1, ws_step_order = 3, ws_approver_id = 1,
                   ws_status = ''pending'', ws_comments = None\<rparr>]\<rparr>"


text \<open>The request of \<open>db_created\<close>, as \<^verbatim>\<open>create_request\<close> writes it.\<close>

definition req1 :: request where
  "req1 = \<lparr>req_id = 1, title = pystr_of ''Request: Need a laptop'',
            message = pystr_of ''Need a laptop'',
            department = ''IT'', status = ''pending'', priority = ''normal'', submitter_id = 4,
            department_approver_id = Some 3, admin_approver_id = None\<rparr>"

text \<open>
  The status that the "Update request status" part of \<^verbatim>\<open>approve_request\<close> leaves, as a
  function of the approval level, the action and the status before.
\<close>

definition next_status :: "string \<Rightarrow> string \<Rightarrow> string \<Rightarrow> string" where
  "next_status level act old =
     (if act = ''approve'' then
        (if level = ''general'' then ''general_approved''
         else if level = ''department'' then ''department_approved''
         else if level = ''admin'' then ''admin_approved'' else old)
      else if act = ''reject'' then ''rejected'' else old)"


section \<open>Facts about the queries\<close>

lemma first_None_iff: "first P xs = None \<longleftrightarrow> \<not> list_ex P xs"
  by (auto simp: first_def find_None_iff list_ex_iff)

lemma first_SomeD: "first P xs = Some x \<Longrightarrow> P x \<and> x \<in> set xs"
  by (auto simp: first_def find_Some_iff)

lemma first_Some_list_ex: "first P xs = Some x \<Longrightarrow> list_ex P xs"
  by (auto simp: list_ex_iff dest: first_SomeD)

lemma first_append_Some: "first P xs = Some x \<Longrightarrow> first P (xs @ ys) = Some x"
  by (induction xs) (auto simp: first_def)

lemma first_update_first_same:
  "first P xs = Some x \<Longrightarrow> P (f x) \<Longrightarrow> first P (update_first P f xs) = Some (f x)"
  by (induction xs) (auto simp: first_def split: if_splits)

lemma first_update_first_other:
  "(\<And>x. Q x \<Longrightarrow> \<not> P x) \<Longrightarrow> (\<And>x. Q x \<Longrightarrow> \<not> P (f x)) \<Longrightarrow>
     first P (update_first Q f xs) = first P xs"
  by (induction xs) (auto simp: first_def)

lemma first_filter_other:
  "(\<And>x. P x \<Longrightarrow> Q x) \<Longrightarrow> first P (filter Q xs) = first P xs"
  by (induction xs) (auto simp: first_def)

lemma first_filter_none:
  "(\<And>x. P x \<Longrightarrow> \<not> Q x) \<Longrightarrow> first P (filter Q xs) = None"
  by (induction xs) (auto simp: first_def)

section \<open>The request row across the operations\<close>

lemma requests_add_request_approval [simp]:
  "requests (add_request_approval rid uid l a c d) = requests d"
  by (simp add: add_request_approval_def)

lemma requests_add_workflow_flow [simp]:
  "requests (add_workflow_flow rid n nm u rl dp st d) = requests d"
  by (simp add: add_workflow_flow_def)

lemma requests_set_flow_status [simp]: "requests (set_flow_status P st d) = requests d"
  by (simp add: set_flow_status_def)

lemma requests_when_found_approval [simp]:
  "requests (when_found v (\<lambda>x. add_request_approval rid (g x) l a c) d) = requests d"
  by (simp add: when_found_def split: option.splits)

lemma requests_when_found_flow [simp]:
  "requests (when_found v (\<lambda>x. add_workflow_flow rid n nm x rl dp st) d) = requests d"
  by (simp add: when_found_def split: option.splits)

lemma get_request_req_id: "get_request d rid = Some r \<Longrightarrow> req_id r = rid"
  by (auto simp: get_request_def dest: first_SomeD)

lemma get_request_set_request_same:
  "get_request d rid = Some r \<Longrightarrow> req_id (f r) = rid \<Longrightarrow>
     get_request (set_request rid f d) rid = Some (f r)"
  by (simp add: get_request_def set_request_def first_update_first_same)

lemma get_request_set_request_other:
  "rid \<noteq> rid' \<Longrightarrow> (\<And>x. req_id (f x) = req_id x) \<Longrightarrow>
     get_request (set_request rid' f d) rid = get_request d rid"
  unfolding get_request_def set_request_def
  by (simp, rule first_update_first_other) auto

lemma get_request_cong: "requests d' = requests d \<Longrightarrow> get_request d' rid = get_request d rid"
  by (simp add: get_request_def)

lemma get_request_set_flow_status [simp]:
  "get_request (set_flow_status P st d) rid = get_request d rid"
  by (simp add: get_request_def)

lemma get_request_add_request_approval [simp]:
  "get_request (add_request_approval x1 x2 x3 x4 x5 d) rid = get_request d rid"
  by (simp add: get_request_def)

lemma get_request_update_request_status_other:
  "rid \<noteq> rid' \<Longrightarrow>
     get_request (update_request_status u rid' l a d) rid = get_request d rid"
  by (simp add: update_request_status_def Let_def get_request_set_request_other)

lemma get_request_update_request_status_same:
  assumes "get_request d rid = Some r" and "req_id r = rid"
  shows "\<exists>r'. get_request (update_request_status u rid l a d) rid = Some r'
            \<and> status r' = next_status l a (status r)"
  using assms
  by (simp add: update_request_status_def next_status_def Let_def get_request_set_request_same)

lemma get_request_create_request:
  "get_request d rid = Some r \<Longrightarrow> get_request (snd (create_request d u m dp p)) rid = Some r"
  by (simp add: create_request_def Let_def get_request_def add_request_def first_append_Some
      split: option.splits)

lemma get_request_approve_request_other:
  "rid \<noteq> rid' \<Longrightarrow> get_request (snd (approve_request d u rid' a c)) rid = get_request d rid"
  by (simp add: approve_request_def Let_def get_request_update_request_status_other
      split: option.splits prod.splits)

lemma request_approvals_update_request_status:
  "request_approvals (update_request_status u rid l a d) = request_approvals d"
  by (simp add: update_request_status_def set_flow_status_def set_request_def Let_def)

lemma approve_request_same_status:
  assumes "get_request d rid = Some r"
  shows "\<exists>r'. get_request (snd (approve_request d u rid a c)) rid = Some r' \<and>
           (status r' = status r
            \<or> (role u = ''admin''
                 \<and> (status r' = ''admin_approved'' \<or> status r' = ''rejected''))
            \<or> (status r = ''pending''
                 \<and> (status r' = ''general_approved'' \<or> status r' = ''rejected''))
            \<or> (status r = ''general_approved''
                 \<and> (status r' = ''department_approved'' \<or> status r' = ''rejected'')))"
proof -
  have rid: "req_id r = rid" using assms by (rule get_request_req_id)
  have req: "first (\<lambda>r. req_id r = rid) (requests d) = Some r"
    using assms by (simp add: get_request_def)
  obtain can lvl where chk: "check_can_approve d u r = (can, lvl)"
    by (cases "check_can_approve d u r")
  show ?thesis
  proof (cases "can \<and> lvl \<noteq> None")
    case False
    then have "snd (approve_request d u rid a c) = d"
      using req chk by (auto simp: approve_request_def Let_def split: option.splits)
    with assms show ?thesis by simp
  next
    case True
    then obtain l where l: "lvl = Some l" and can: can by auto
    let ?act = "data_get a ''approve''"
    let ?d1 = "add_request_approval rid (user_id u) l ?act (data_get c '''') d"
    have res: "snd (approve_request d u rid a c) = update_request_status u rid l ?act ?d1"
      using req chk l can by (simp add: approve_request_def Let_def)
    have "get_request ?d1 rid = Some r" using assms by simp
    from get_request_update_request_status_same [OF this rid, of u l ?act]
    obtain r' where r': "get_request (update_request_status u rid l ?act ?d1) rid = Some r'"
      and st: "status r' = next_status l ?act (status r)" by blast
    have lvl_cases: "(role u = ''admin'' \<and> l = ''admin'')
        \<or> (status r = ''pending'' \<and> l = ''general'')
        \<or> (status r = ''general_approved'' \<and> l = ''department'')"
      using chk l can
      by (auto simp: check_can_approve_def split: if_splits option.splits)
    then have "status r' = status r
            \<or> (role u = ''admin''
                 \<and> (status r' = ''admin_approved'' \<or> status r' = ''rejected''))
            \<or> (status r = ''pending''
                 \<and> (status r' = ''general_approved'' \<or> status r' = ''rejected''))
            \<or> (status r = ''general_approved''
                 \<and> (status r' = ''department_approved'' \<or> status r' = ''rejected''))"
      using st by (auto simp: next_status_def)
    with r' res show ?thesis by simp
  qed
qed

lemma get_request_delete_request:
  "get_request d rid = Some r \<Longrightarrow>
     get_request (snd (delete_request d u rid')) rid =
       (if fst (delete_request d u rid') = Success \<and> rid' = rid then None else Some r)"
  by (auto simp: delete_request_def get_request_def first_filter_none
        first_filter_other [where P = "\<lambda>r. req_id r = rid" and Q = "\<lambda>r. req_id r \<noteq> rid'"]
      split: option.splits)

lemma delete_request_Success_admin:
  "fst (delete_request d u rid) = Success \<Longrightarrow> role u = ''admin''"
  by (auto simp: delete_request_def split: if_splits option.splits)

lemma get_request_other_ops:
  "get_request (snd (create_department_approver d u dp aid)) rid = get_request d rid"
  "get_request (snd (delete_department_approver d u k)) rid = get_request d rid"
  "get_request (snd (approve_document d u did a c)) rid = get_request d rid"
  by (auto simp: create_department_approver_def delete_department_approver_def
        approve_document_def get_request_def Let_def split: option.splits)

lemma spec_forward_refl: "spec_forward s s"
  by (simp add: spec_forward_def)

section \<open>The small installation, evaluated\<close>

lemmas fixture_defs = db0_def admin_user_def general_user_def it_user_def plain_user_def
  req1_def db_no_general_def db_doc_def

lemmas handler_defs = create_request_def approve_request_def check_can_approve_def
  update_request_status_def set_flow_status_def set_request_def add_request_approval_def
  add_workflow_flow_def add_request_def when_found_def data_get_def py_not_def strip_def
  isspace_def pystr_of_def first_def is_general_flow_def is_dept_flow_def is_admin_flow_def
  Let_def
  get_request_def request_status_def

lemma db_created_eq:
  "db_created =
     db0\<lparr>requests := [req1],
         request_approvals :=
           [\<lparr>ra_id = 1, ra_request_id = 1, ra_approver_id = 2, approval_level = ''general'',
             action = ''pending'',
             comments = ''Request submitted and routed to General Approver (Step 1)''\<rparr>,
            \<lparr>ra_id = 2, ra_request_id = 1, ra_approver_id = 3, approval_level = ''department'',
             action = ''pending'',
             comments = ''Request routed to IT Department Approver (Step 2)''\<rparr>,
            \<lparr>ra_id = 3, ra_request_id = 1, ra_approver_id = 1, approval_level = ''admin'',
             action = ''pending'', comments = ''Request routed to Admin Approver (Step 3)''\<rparr>],
         workflow_flow :=
           [\<lparr>wfd_id = 1, wfd_request_id = 1, step_number = 0, step_name = ''User (Submitter)'',
             wfd_user_id = 4, wfd_username = ''user1'', wfd_role = ''user'',
             wfd_department = Some ''Sales'', wfd_status = ''completed''\<rparr>,
            \<lparr>wfd_id = 2, wfd_request_id = 1, step_number = 1, step_name = ''General Approver'',
             wfd_user_id = 2, wfd_username = ''general_approver'',
             wfd_role = ''general_approver'', wfd_department = Some ''General'',
             wfd_status = ''pending''\<rparr>,
            \<lparr>wfd_id = 3, wfd_request_id = 1, step_number = 2,
             step_name = ''IT Department Approver'', wfd_user_id = 3,
             wfd_username = ''it_approver'', wfd_role = ''department_approver'',
             wfd_department = Some ''IT'', wfd_status = ''pending''\<rparr>,
            \<lparr>wfd_id = 4, wfd_request_id = 1, step_number = 3, step_name = ''Admin Approver'',
             wfd_user_id = 1, wfd_username = ''admin'', wfd_role = ''admin'',
             wfd_department = Some ''Admin'', wfd_status = ''pending''\<rparr>],
         next_request_id := 2, next_request_approval_id := 4, next_workflow_flow_id := 5\<rparr>"
  by (simp add: db_created_def handler_defs fixture_defs)

lemma get_request_db_created: "get_request db_created 1 = Some req1"
  by (simp add: db_created_eq handler_defs fixture_defs)

lemma get_request_db_rejected: "get_request db_rejected 1 = Some (req1\<lparr>status := ''rejected''\<rparr>)"
  by (simp add: db_rejected_def db_created_eq handler_defs fixture_defs)

lemma get_request_db_general:
  "get_request db_general 1 = Some (req1\<lparr>status := ''general_approved''\<rparr>)"
  by (simp add: db_general_def db_created_eq handler_defs fixture_defs)

lemma get_request_db_admin:
  "get_request db_admin 1 =
     Some (req1\<lparr>status := ''admin_approved'', admin_approver_id := Some 1\<rparr>)"
  by (simp add: db_admin_def db_created_eq handler_defs fixture_defs)


section \<open>Closed requests (C1)\<close>

text \<open>
  C1, as the specification states it: once the status of a request is \<open>admin_approved\<close> or
  \<open>rejected\<close>, every further call of approve\_or\_reject fails and writes nothing. The code
  differs for a caller whose role is \<open>admin\<close>: the request below was rejected by the
  general approver, and the admin's approval is accepted, sets the status to
  \<open>admin_approved\<close> and appends an approval row.
\<close>

theorem closed_request_admin_still_accepted:
  "request_status db_rejected 1 = Some ''rejected''
   \<and> fst (approve_request db_rejected admin_user 1 (Some ''approve'') None) = Success
   \<and> request_status (snd (approve_request db_rejected admin_user 1 (Some ''approve'') None)) 1
       = Some ''admin_approved''
   \<and> length (request_approvals
         (snd (approve_request db_rejected admin_user 1 (Some ''approve'') None)))
       = Suc (length (request_approvals db_rejected))"
  by (simp add: db_rejected_def db_created_eq handler_defs fixture_defs)

text \<open>
  C1, amended: for every request whose status is \<open>admin_approved\<close> or \<open>rejected\<close>, a call of
  approve\_or\_reject by a caller whose role is not \<open>admin\<close> fails with the
  not-authorized answer (403) and leaves the store as it was; a call by a caller whose
  role is \<open>admin\<close> is still accepted.
\<close>

theorem closed_request_refuses_non_admin:
  assumes "get_request d rid = Some r" and "terminal (status r)"
  shows "(role u \<noteq> ''admin'' \<longrightarrow> approve_request d u rid a c = (Failure NotAuthorized, d))
       \<and> (role u = ''admin'' \<longrightarrow> fst (approve_request d u rid a c) = Success)"
  using assms
  by (auto simp: approve_request_def get_request_def check_can_approve_def terminal_def Let_def
      split: option.splits)

theorem closed_request_refuses_non_admin_witness:
  "get_request db_rejected 1 = Some (req1\<lparr>status := ''rejected''\<rparr>)
   \<and> terminal ''rejected''
   \<and> approve_request db_rejected it_user 1 (Some ''approve'') None
       = (Failure NotAuthorized, db_rejected)
   \<and> fst (approve_request db_rejected admin_user 1 (Some ''approve'') None) = Success"
proof -
  have t: "terminal (status (req1\<lparr>status := ''rejected''\<rparr>))"
    by (simp add: terminal_def)
  have "role it_user \<noteq> ''admin''" and "role admin_user = ''admin''"
    by (simp_all add: it_user_def admin_user_def)
  then show ?thesis
    using closed_request_refuses_non_admin
            [OF get_request_db_rejected t, of it_user "Some ''approve''" None]
      closed_request_refuses_non_admin
            [OF get_request_db_rejected t, of admin_user "Some ''approve''" None]
      get_request_db_rejected
    by (simp add: terminal_def)
qed

section \<open>The direction of the status (C2)\<close>

text \<open>
  C2, as the specification states it: no operation moves the status of a request backward
  or out of a terminal state. The code differs: the request below was approved by the
  admin, and the admin's later rejection moves it from \<open>admin_approved\<close> to \<open>rejected\<close>.
\<close>

theorem admin_moves_status_out_of_terminal:
  "request_status db_admin 1 = Some ''admin_approved''
   \<and> request_status
        (snd (apply_op (ApproveRequest admin_user 1 (Some ''reject'') None) db_admin)) 1
       = Some ''rejected''"
  by (simp add: db_admin_def db_created_eq handler_defs fixture_defs)

text \<open>
  C2, amended: for every request whose status is one of the five of the state machine and
  every operation, after the operation the request is either deleted (by an admin's
  delete\_request), or its status is as before, or further along
  \<open>pending \<rightarrow> general_approved \<rightarrow> department_approved \<rightarrow> admin_approved\<close>, or \<open>rejected\<close> from
  a state that was not terminal; the one exception is a call of approve\_or\_reject by a
  caller whose role is \<open>admin\<close> on a request in a terminal state, which may leave it in
  either terminal state.
\<close>

theorem status_moves_forward_or_admin_reopens:
  assumes "get_request d rid = Some r"
      and "stage_rank (status r) \<noteq> None \<or> status r = ''rejected''"
  shows "(get_request (snd (apply_op opn d)) rid = None
            \<and> (\<exists>u. opn = DeleteRequest u rid \<and> role u = ''admin''))
       \<or> (\<exists>r'. get_request (snd (apply_op opn d)) rid = Some r' \<and>
             (spec_forward (status r) (status r')
              \<or> (terminal (status r) \<and> terminal (status r')
                   \<and> (\<exists>u a c. opn = ApproveRequest u rid a c \<and> role u = ''admin''))))"
proof (cases opn)
  case (CreateRequest u m dp p)
  then show ?thesis using assms(1)
    by (simp add: get_request_create_request spec_forward_refl)
next
  case (ApproveRequest u rid' a c)
  show ?thesis
  proof (cases "rid' = rid")
    case False
    then show ?thesis using assms(1) ApproveRequest
      by (simp add: get_request_approve_request_other spec_forward_refl)
  next
    case True
    from approve_request_same_status [OF assms(1), of u a c]
    obtain r' where r': "get_request (snd (approve_request d u rid a c)) rid = Some r'"
      and st: "status r' = status r
            \<or> (role u = ''admin''
                 \<and> (status r' = ''admin_approved'' \<or> status r' = ''rejected''))
            \<or> (status r = ''pending''
                 \<and> (status r' = ''general_approved'' \<or> status r' = ''rejected''))
            \<or> (status r = ''general_approved''
                 \<and> (status r' = ''department_approved'' \<or> status r' = ''rejected''))"
      by blast
    have "spec_forward (status r) (status r')
        \<or> (terminal (status r) \<and> terminal (status r') \<and> role u = ''admin'')"
      using st assms(2)
      by (auto simp: spec_forward_def stage_rank_def terminal_def split: if_splits)
    with r' True ApproveRequest show ?thesis by auto
  qed
next
  case (DeleteRequest u rid')
  then show ?thesis using assms(1) get_request_delete_request [OF assms(1), of u rid']
    by (auto simp: spec_forward_refl dest: delete_request_Success_admin)
next
  case (CreateDepartmentApprover u dp aid)
  then show ?thesis using assms(1) by (simp add: get_request_other_ops spec_forward_refl)
next
  case (DeleteDepartmentApprover u k)
  then show ?thesis using assms(1) by (simp add: get_request_other_ops spec_forward_refl)
next
  case (ApproveDocument u did a c)
  then show ?thesis using assms(1) by (simp add: get_request_other_ops spec_forward_refl)
qed

theorem status_moves_forward_or_admin_reopens_witness:
  "get_request db_created 1 = Some req1
   \<and> get_request
        (snd (apply_op (ApproveRequest general_user 1 (Some ''approve'') None) db_created)) 1
       = Some (req1\<lparr>status := ''general_approved''\<rparr>)
   \<and> spec_forward ''pending'' ''general_approved''"
proof -
  have k: "stage_rank (status req1) \<noteq> None \<or> status req1 = ''rejected''"
    by (simp add: req1_def stage_rank_def)
  have g: "get_request
             (snd (apply_op (ApproveRequest general_user 1 (Some ''approve'') None) db_created)) 1
           = Some (req1\<lparr>status := ''general_approved''\<rparr>)"
    using get_request_db_general by (simp add: db_general_def)
  have "role general_user \<noteq> ''admin''" by (simp add: general_user_def)
  then show ?thesis
    using status_moves_forward_or_admin_reopens
            [OF get_request_db_created k,
             of "ApproveRequest general_user 1 (Some ''approve'') None"]
      g get_request_db_created
    by (simp add: req1_def)
qed

section \<open>The approval rows (C3)\<close>

text \<open>
  C3, as the specification states it: every stage has exactly one approval row, and
  approve\_or\_reject overwrites the action of the stage's pending row. The code differs:
  after the general approver has approved the request below, the general stage has two
  rows, the placeholder, still pending, and the new row.
\<close>

theorem general_stage_has_two_rows:
  "map (\<lambda>a. (approval_level a, action a))
     (filter (\<lambda>a. ra_request_id a = 1 \<and> approval_level a = ''general'')
        (request_approvals db_general))
   = [(''general'', ''pending''), (''general'', ''approve'')]"
  by (simp add: db_general_def db_created_eq handler_defs fixture_defs)

text \<open>
  C3, amended: approve\_or\_reject never overwrites an approval row. A call that succeeds
  appends exactly one row and leaves every earlier row, the pending placeholders of
  create\_request among them, as it was. The new row has the request and the caller of
  the call, its action and its comments, and the approval level at which the caller
  acts: \<open>admin\<close> for an admin, \<open>general\<close> for the general approver, who succeeds only on a
  pending request, \<open>department\<close> for anyone else, who succeeds only on a request approved
  by the general approver. A call that fails leaves the store as it was.
\<close>

theorem approve_request_appends_one_row:
  "(fst (approve_request d u rid a c) = Success
      \<and> (\<exists>r. get_request d rid = Some r
             \<and> (role u = ''admin''
                 \<or> (acting_level u = ''general'' \<and> status r = ''pending'')
                 \<or> (acting_level u = ''department'' \<and> status r = ''general_approved'')))
      \<and> request_approvals (snd (approve_request d u rid a c)) =
           request_approvals d @
             [\<lparr>ra_id = next_request_approval_id d, ra_request_id = rid,
               ra_approver_id = user_id u, approval_level = acting_level u,
               action = data_get a ''approve'', comments = data_get c ''''\<rparr>])
   \<or> (fst (approve_request d u rid a c) \<noteq> Success \<and> snd (approve_request d u rid a c) = d)"
proof (cases "first (\<lambda>r. req_id r = rid) (requests d)")
  case None
  then show ?thesis by (simp add: approve_request_def)
next
  case (Some r)
  have g: "get_request d rid = Some r" using Some by (simp add: get_request_def)
  obtain can lvl where chk: "check_can_approve d u r = (can, lvl)"
    by (cases "check_can_approve d u r")
  show ?thesis
  proof (cases "can \<and> lvl \<noteq> None")
    case False
    then show ?thesis using Some chk
      by (auto simp: approve_request_def Let_def split: option.splits)
  next
    case True
    then obtain l where l: "lvl = Some l" and can: can by auto
    have lv: "l = acting_level u"
      using chk l can
      by (auto simp: check_can_approve_def acting_level_def split: if_splits option.splits)
    have st: "role u = ''admin''
                 \<or> (acting_level u = ''general'' \<and> status r = ''pending'')
                 \<or> (acting_level u = ''department'' \<and> status r = ''general_approved'')"
      using chk l can
      by (auto simp: check_can_approve_def acting_level_def split: if_splits option.splits)
    have ok: "fst (approve_request d u rid a c) = Success"
      using Some chk l can by (simp add: approve_request_def Let_def)
    have rows: "request_approvals (snd (approve_request d u rid a c)) =
           request_approvals d @
             [\<lparr>ra_id = next_request_approval_id d, ra_request_id = rid,
               ra_approver_id = user_id u, approval_level = acting_level u,
               action = data_get a ''approve'', comments = data_get c ''''\<rparr>]"
      using Some chk l can lv
      by (simp add: approve_request_def Let_def request_approvals_update_request_status
            add_request_approval_def)
    from g st have "\<exists>r. get_request d rid = Some r
             \<and> (role u = ''admin''
                 \<or> (acting_level u = ''general'' \<and> status r = ''pending'')
                 \<or> (acting_level u = ''department'' \<and> status r = ''general_approved''))"
      by blast
    with ok rows show ?thesis by blast
  qed
qed

theorem approve_request_appends_one_row_witness:
  "fst (approve_request db_created general_user 1 (Some ''approve'') None) = Success
   \<and> acting_level general_user = ''general''
   \<and> request_approvals db_general =
         request_approvals db_created @
           [\<lparr>ra_id = 4, ra_request_id = 1, ra_approver_id = 2, approval_level = ''general'',
             action = ''approve'', comments = ''''\<rparr>]"
proof -
  have ok: "fst (approve_request db_created general_user 1 (Some ''approve'') None) = Success"
    by (simp add: db_created_eq handler_defs fixture_defs)
  have n: "next_request_approval_id db_created = 4"
    by (simp add: db_created_eq fixture_defs)
  have l: "acting_level general_user = ''general''"
    by (simp add: acting_level_def general_user_def)
  have i: "user_id general_user = 2" by (simp add: general_user_def)
  note t = approve_request_appends_one_row
             [of db_created general_user 1 "Some ''approve''" None, folded db_general_def]
  show ?thesis
    using t ok n l i by (simp add: data_get_def)
qed

section \<open>Who may act (C4)\<close>

text \<open>
  C4: for every request with status \<open>general_approved\<close>, a call of approve\_or\_reject by a
  caller who is not an admin succeeds only if the caller is an active department
  approver of the request's department; and whoever the specification's rule does not
  authorise, at any stage, gets the not-authorized answer, and the store stays as it
  was.
\<close>

theorem department_stage_authorization:
  assumes "get_request d rid = Some r"
  shows "(status r = ''general_approved'' \<and> role u \<noteq> ''admin''
            \<and> fst (approve_request d u rid a c) = Success
          \<longrightarrow> is_active_department_approver d u (department r))
       \<and> (\<not> spec_may_act d u r \<longrightarrow> approve_request d u rid a c = (Failure NotAuthorized, d))"
proof -
  have req: "first (\<lambda>r. req_id r = rid) (requests d) = Some r"
    using assms by (simp add: get_request_def)
  show ?thesis
  proof (cases "first (\<lambda>a. da_approver_id a = user_id u \<and> da_department a = department r
                          \<and> da_is_active a) (department_approvers d)")
    case None
    then have "\<not> is_active_department_approver d u (department r)"
      by (simp add: is_active_department_approver_def first_None_iff)
    with None req show ?thesis
      by (simp add: approve_request_def check_can_approve_def Let_def spec_may_act_def)
  next
    case (Some da)
    then have "is_active_department_approver d u (department r)"
      unfolding is_active_department_approver_def by (rule first_Some_list_ex)
    with Some req show ?thesis
      by (simp add: approve_request_def check_can_approve_def Let_def spec_may_act_def)
  qed
qed

theorem department_stage_authorization_witness:
  "get_request db_general 1 = Some (req1\<lparr>status := ''general_approved''\<rparr>)
   \<and> fst (approve_request db_general it_user 1 (Some ''approve'') None) = Success
   \<and> is_active_department_approver db_general it_user ''IT''
   \<and> approve_request db_general plain_user 1 (Some ''approve'') None
       = (Failure NotAuthorized, db_general)"
proof -
  have ok: "fst (approve_request db_general it_user 1 (Some ''approve'') None) = Success"
    by (simp add: db_general_def db_created_eq handler_defs fixture_defs)
  have no: "\<not> spec_may_act db_general plain_user (req1\<lparr>status := ''general_approved''\<rparr>)"
    by (simp add: spec_may_act_def is_active_department_approver_def db_general_def
          db_created_eq handler_defs fixture_defs)
  show ?thesis
    using department_stage_authorization
            [OF get_request_db_general, of it_user "Some ''approve''" None]
      department_stage_authorization
            [OF get_request_db_general, of plain_user "Some ''approve''" None]
      ok no get_request_db_general
    by (simp add: req1_def it_user_def)
qed

section \<open>A department without an approver (C5)\<close>

text \<open>
  C5, as the specification states it: every call of create\_request that names a
  department with no active approver fails with NoApproverAssignedError. The code
  checks the message first: with a message that is empty after \<^verbatim>\<open>strip()\<close> the answer is
  400 "Message and department are required".
\<close>

theorem create_request_blank_message_missing_fields:
  "first (\<lambda>a. da_department a = ''HR'' \<and> da_is_active a) (department_approvers db0) = None
   \<and> create_request db0 plain_user (Some (pystr_of '' '')) (Some ''HR'') None
       = (Failure MissingFields, db0)"
  by (simp add: handler_defs fixture_defs)

text \<open>
  C5, amended: every call of create\_request that names a department with no active
  approver fails and writes no row at all; the answer is 404 "No approver found" when
  the message is not empty after \<^verbatim>\<open>strip()\<close> and the department name is not empty, and
  400 "Message and department are required" otherwise.
\<close>

theorem create_request_without_department_approver:
  assumes "first (\<lambda>a. da_department a = dept \<and> da_is_active a) (department_approvers d) = None"
  shows "create_request d u m (Some dept) p =
           (if strip (data_get m []) = [] \<or> dept = [] then (Failure MissingFields, d)
            else (Failure NoApproverFound, d))"
  using assms by (simp add: create_request_def py_not_def data_get_def Let_def)

theorem create_request_without_department_approver_witness:
  "first (\<lambda>a. da_department a = ''HR'' \<and> da_is_active a) (department_approvers db0) = None
   \<and> create_request db0 plain_user (Some (pystr_of ''Need a laptop'')) (Some ''HR'') None
       = (Failure NoApproverFound, db0)
   \<and> create_request db0 plain_user (Some [0xA0, 0x3000]) (Some ''HR'') None
       = (Failure MissingFields, db0)"
proof -
  have h: "first (\<lambda>a. da_department a = ''HR'' \<and> da_is_active a) (department_approvers db0)
             = None"
    by (simp add: first_def db0_def)
  show ?thesis
    using create_request_without_department_approver
            [OF h, of plain_user "Some (pystr_of ''Need a laptop'')" None]
      create_request_without_department_approver
            [OF h, of plain_user "Some [0xA0, 0x3000]" None] h
    by (simp add: strip_def isspace_def pystr_of_def data_get_def)
qed

section \<open>The approval rows of a new request (C6)\<close>


lemma request_approvals_add_workflow_flow [simp]:
  "request_approvals (add_workflow_flow rid n nm u rl dp st d) = request_approvals d"
  by (simp add: add_workflow_flow_def)

lemma request_approvals_when_found_flow [simp]:
  "request_approvals (when_found v (\<lambda>x. add_workflow_flow rid n nm x rl dp st) d)
     = request_approvals d"
  by (simp add: when_found_def split: option.splits)

lemma request_approvals_add_request [simp]:
  "request_approvals (add_request t m dp s a p d) = request_approvals d"
  by (simp add: add_request_def)




section \<open>The outcome of a document (C7)\<close>

text \<open>
  C7: when no step of a document is pending any more, the document becomes \<open>rejected\<close> if a
  step was rejected and \<open>approved\<close> otherwise. The code assigns the action, \<^verbatim>\<open>'reject'\<close>,
  to the status of the step and then counts the steps whose status is \<^verbatim>\<open>'rejected'\<close>:
  below, the second approver rejects the document, the admin closes the last step, and
  the document is \<open>approved\<close>.
\<close>

theorem rejected_step_document_approved:
  "(let d1 = snd (approve_document db_doc general_user 1 ''approve'' ''fine'');
        d2 = snd (approve_document d1 it_user 1 ''reject'' ''no budget'');
        d3 = snd (approve_document d2 admin_user 1 ''approve'' ''fine'')
    in map ws_status (workflow_steps d3) = [''approve'', ''reject'', ''approve'']
       \<and> map doc_status (documents d2) = [''pending'']
       \<and> map doc_status (documents d3) = [''approved''])"
  by (simp add: approve_document_def handler_defs fixture_defs)

section \<open>One active approver for a department (C8)\<close>

lemma first_append_None: "first P xs = None \<Longrightarrow> first P (xs @ ys) = first P ys"
  by (induction xs) (auto simp: first_def split: if_splits)

lemma first_update_first_invariant:
  assumes "\<And>x. P (f x) = P x"
  shows "(first P (update_first Q f xs) = None) = (first P xs = None)"
  using assms by (induction xs) (auto simp: first_def)

lemma update_first_distinct_set:
  assumes "distinct (map k xs)" and "x \<in> set (update_first (\<lambda>a. k a = v) f xs)"
  shows "\<exists>y \<in> set xs. (k y = v \<and> x = f y) \<or> (k y \<noteq> v \<and> x = y)"
  using assms
proof (induction xs)
  case Nil
  then show ?case by simp
next
  case (Cons z zs)
  show ?case
  proof (cases "k z = v")
    case True
    then have "x = f z \<or> x \<in> set zs" using Cons.prems(2) by simp
    then show ?thesis
    proof
      assume "x = f z"
      then show ?thesis using True by simp
    next
      assume xz: "x \<in> set zs"
      have "k z \<notin> k ` set zs" using Cons.prems(1) by simp
      with xz have "k x \<noteq> k z" by (metis imageI)
      with xz True show ?thesis by auto
    qed
  next
    case False
    then have "x = z \<or> x \<in> set (update_first (\<lambda>a. k a = v) f zs)"
      using Cons.prems(2) by simp
    then show ?thesis
    proof
      assume "x = z"
      then show ?thesis using False by simp
    next
      assume "x \<in> set (update_first (\<lambda>a. k a = v) f zs)"
      moreover have "distinct (map k zs)" using Cons.prems(1) by simp
      ultimately have "\<exists>y \<in> set zs. (k y = v \<and> x = f y) \<or> (k y \<noteq> v \<and> x = y)"
        by (rule Cons.IH [rotated])
      then show ?thesis by auto
    qed
  qed
qed

lemma deactivate_no_active:
  assumes "distinct (map da_id xs)"
      and "filter (\<lambda>a. da_department a = dept \<and> da_is_active a) xs = [ex]"
  shows "first (\<lambda>a. da_department a = dept \<and> da_is_active a)
           (update_first (\<lambda>a. da_id a = da_id ex) (\<lambda>a. a\<lparr>da_is_active := False\<rparr>) xs) = None"
proof -
  let ?P = "\<lambda>a. da_department a = dept \<and> da_is_active a"
  let ?ys = "update_first (\<lambda>a. da_id a = da_id ex) (\<lambda>a. a\<lparr>da_is_active := False\<rparr>) xs"
  have only: "y = ex" if "y \<in> set xs" and "?P y" for y
  proof -
    have "y \<in> set (filter ?P xs)" using that by simp
    then show ?thesis unfolding assms(2) by simp
  qed
  have "\<not> ?P x" if "x \<in> set ?ys" for x
  proof -
    from update_first_distinct_set [OF assms(1) that]
    obtain y where y: "y \<in> set xs"
      and c: "(da_id y = da_id ex \<and> x = y\<lparr>da_is_active := False\<rparr>) \<or> (da_id y \<noteq> da_id ex \<and> x = y)"
      by blast
    from c show ?thesis
    proof
      assume "da_id y = da_id ex \<and> x = y\<lparr>da_is_active := False\<rparr>"
      then show ?thesis by simp
    next
      assume n: "da_id y \<noteq> da_id ex \<and> x = y"
      then have "y \<noteq> ex" by auto
      with only [OF y] have "\<not> ?P y" by blast
      with n show ?thesis by simp
    qed
  qed
  then have "\<not> list_ex ?P ?ys" unfolding list_ex_iff by blast
  then show ?thesis unfolding first_None_iff .
qed


text \<open>
  What the handlers do keep of C8: for an admin caller, a department name that is not
  empty and a user that exists, creating a department approver for a department that
  has an active one fails with the duplicate answer (400) and writes nothing; and when
  that active mapping is the only one of the department, after it has been deactivated
  the creation succeeds and the new mapping is the active one of the department,
  provided the user was not mapped to this department before.
\<close>

lemma department_approver_duplicate_and_replacement:
  assumes "role u = ''admin''" and "dept \<noteq> []" and "aid \<noteq> 0"
      and "first (\<lambda>x. user_id x = aid) (users d) = Some usr"
      and "first (\<lambda>a. da_department a = dept \<and> da_is_active a) (department_approvers d)
             = Some ex"
  shows "create_department_approver d u (Some dept) (Some aid) = (Failure DuplicateApprover, d)
       \<and> (distinct (map da_id (department_approvers d))
            \<and> filter (\<lambda>a. da_department a = dept \<and> da_is_active a) (department_approvers d) = [ex]
            \<and> first (\<lambda>a. da_department a = dept \<and> da_approver_id a = aid)
                 (department_approvers d) = None
          \<longrightarrow> fst (delete_department_approver d u (da_id ex)) = Success
              \<and> fst (create_department_approver (snd (delete_department_approver d u (da_id ex)))
                       u (Some dept) (Some aid)) = Success
              \<and> first (\<lambda>a. da_department a = dept \<and> da_is_active a)
                   (department_approvers
                      (snd (create_department_approver
                              (snd (delete_department_approver d u (da_id ex)))
                              u (Some dept) (Some aid))))
                 = Some \<lparr>da_id = next_department_approver_id d, da_department = dept,
                          da_approver_id = aid, da_is_active = True\<rparr>)"
proof -
  let ?xs = "department_approvers d"
  let ?P = "\<lambda>a. da_department a = dept \<and> da_is_active a"
  let ?Q = "\<lambda>a. da_department a = dept \<and> da_approver_id a = aid"
  let ?ys = "update_first (\<lambda>a. da_id a = da_id ex) (\<lambda>a. a\<lparr>da_is_active := False\<rparr>) ?xs"
  let ?new = "\<lparr>da_id = next_department_approver_id d, da_department = dept,
                da_approver_id = aid, da_is_active = True\<rparr>"
  let ?d' = "d\<lparr>department_approvers := ?ys\<rparr>"
  have py: "\<not> py_not (Some dept)" using assms(2) by (simp add: py_not_def)
  have dup: "create_department_approver d u (Some dept) (Some aid) = (Failure DuplicateApprover, d)"
    using assms(1,3,4,5) py
    by (simp add: create_department_approver_def data_get_def Let_def)
  have "ex \<in> set ?xs" using assms(5) by (auto dest: first_SomeD)
  then have "list_ex (\<lambda>a. da_id a = da_id ex) ?xs" unfolding list_ex_iff by blast
  then have "first (\<lambda>a. da_id a = da_id ex) ?xs \<noteq> None" by (simp add: first_None_iff)
  then obtain row where row: "first (\<lambda>a. da_id a = da_id ex) ?xs = Some row" by blast
  have del: "delete_department_approver d u (da_id ex) = (Success, ?d')"
    using assms(1) row by (simp add: delete_department_approver_def)
  have repl: "fst (create_department_approver ?d' u (Some dept) (Some aid)) = Success
            \<and> first ?P (department_approvers
                          (snd (create_department_approver ?d' u (Some dept) (Some aid))))
                = Some ?new"
    if h1: "distinct (map da_id ?xs)" and h2: "filter ?P ?xs = [ex]" and h3: "first ?Q ?xs = None"
  proof -
    have none_active: "first ?P ?ys = None"
      using h1 h2 by (rule deactivate_no_active)
    have "(first ?Q ?ys = None) = (first ?Q ?xs = None)"
      by (rule first_update_first_invariant) simp
    with h3 have none_pair: "first ?Q ?ys = None" by simp
    have usr: "first (\<lambda>x. user_id x = aid) (users ?d') = Some usr"
      using assms(4) by simp
    have cr: "create_department_approver ?d' u (Some dept) (Some aid)
        = (Success, ?d'\<lparr>department_approvers := ?ys @ [?new],
                        next_department_approver_id := Suc (next_department_approver_id d)\<rparr>)"
      using assms(1,3) py usr none_active none_pair
      by (simp add: create_department_approver_def data_get_def Let_def)
    have "first ?P (?ys @ [?new]) = first ?P [?new]"
      using none_active by (rule first_append_None)
    also have "\<dots> = Some ?new" by (simp add: first_def)
    finally show ?thesis unfolding cr by simp
  qed
  show ?thesis
  proof (intro conjI impI)
    show "create_department_approver d u (Some dept) (Some aid) = (Failure DuplicateApprover, d)"
      by (rule dup)
  next
    assume "distinct (map da_id ?xs) \<and> filter ?P ?xs = [ex] \<and> first ?Q ?xs = None"
    then have "distinct (map da_id ?xs)" and "filter ?P ?xs = [ex]" and "first ?Q ?xs = None"
      by blast+
    then show "fst (delete_department_approver d u (da_id ex)) = Success"
      and "fst (create_department_approver (snd (delete_department_approver d u (da_id ex)))
                       u (Some dept) (Some aid)) = Success"
      and "first ?P (department_approvers
                      (snd (create_department_approver
                              (snd (delete_department_approver d u (da_id ex)))
                              u (Some dept) (Some aid))))
                 = Some ?new"
      unfolding del using repl by simp_all
  qed
qed


lemma department_approver_duplicate_and_replacement_example:
  "role admin_user = ''admin''
   \<and> first (\<lambda>a. da_department a = ''IT'' \<and> da_is_active a) (department_approvers db0)
       = Some \<lparr>da_id = 1, da_department = ''IT'', da_approver_id = 3, da_is_active = True\<rparr>
   \<and> create_department_approver db0 admin_user (Some ''IT'') (Some 2)
       = (Failure DuplicateApprover, db0)
   \<and> fst (delete_department_approver db0 admin_user 1) = Success
   \<and> fst (create_department_approver (snd (delete_department_approver db0 admin_user 1))
            admin_user (Some ''IT'') (Some 2)) = Success
   \<and> first (\<lambda>a. da_department a = ''IT'' \<and> da_is_active a)
        (department_approvers
           (snd (create_department_approver (snd (delete_department_approver db0 admin_user 1))
                   admin_user (Some ''IT'') (Some 2))))
       = Some \<lparr>da_id = 2, da_department = ''IT'', da_approver_id = 2, da_is_active = True\<rparr>"
proof -
  let ?ex = "\<lparr>da_id = 1, da_department = ''IT'', da_approver_id = 3, da_is_active = True\<rparr>"
  have a: "role admin_user = ''admin''" by (simp add: admin_user_def)
  have n: "''IT'' \<noteq> []" "(2::nat) \<noteq> 0" by simp_all
  have usr: "first (\<lambda>x. user_id x = 2) (users db0) = Some general_user"
    by (simp add: first_def fixture_defs)
  have ex: "first (\<lambda>a. da_department a = ''IT'' \<and> da_is_active a) (department_approvers db0)
              = Some ?ex"
    by (simp add: first_def db0_def)
  have h: "distinct (map da_id (department_approvers db0))
         \<and> filter (\<lambda>a. da_department a = ''IT'' \<and> da_is_active a) (department_approvers db0)
             = [?ex]
         \<and> first (\<lambda>a. da_department a = ''IT'' \<and> da_approver_id a = 2)
              (department_approvers db0) = None"
    by (simp add: first_def db0_def)
  have i: "next_department_approver_id db0 = 2" by (simp add: db0_def)
  note t = department_approver_duplicate_and_replacement [OF a n usr ex]
  show ?thesis
    using t h a ex i by simp
qed

text \<open>
  C8: creating a department approver for a department that has an active one fails with
  DuplicateApproverError, and after the existing mapping has been deactivated, creating
  an active approver for that department succeeds. The handler's duplicate check looks
  at the active mappings only, so a deactivated mapping is meant not to stand in the
  way; but the deactivated row stays in the table, and the unique constraint on
  (department, approver\_id) counts it. Below, the mapping of the IT department to user
  3 is deactivated and then created again: the commit raises and the answer is 500,
  where the claim says the creation succeeds.
\<close>

theorem recreate_same_approver_fails:
  "delete_department_approver db0 admin_user 1 =
     (Success, db0\<lparr>department_approvers :=
        [\<lparr>da_id = 1, da_department = ''IT'', da_approver_id = 3, da_is_active = False\<rparr>]\<rparr>)
   \<and> fst (create_department_approver (snd (delete_department_approver db0 admin_user 1))
            admin_user (Some ''IT'') (Some 3)) = Failure ServerError"
  by (simp add: delete_department_approver_def create_department_approver_def
        handler_defs fixture_defs)

section \<open>An admin's approval (C9)\<close>

text \<open>
  C9, as stated: after an admin's approval the department approver of the request is
  unset if the department stage never ran. The code fills that column when the request
  is created: the request below goes from \<open>pending\<close> straight to the admin's approval, no
  department approval was ever given, and its department approver is user 3.
\<close>

theorem department_approver_set_without_department_stage:
  "request_status db_created 1 = Some ''pending''
   \<and> fst (approve_request db_created admin_user 1 (Some ''approve'') None) = Success
   \<and> map (\<lambda>a. (approval_level a, action a)) (request_approvals db_admin)
       = [(''general'', ''pending''), (''department'', ''pending''), (''admin'', ''pending''),
          (''admin'', ''approve'')]
   \<and> map_option department_approver_id (get_request db_admin 1) = Some (Some 3)"
  by (simp add: db_admin_def db_created_eq handler_defs fixture_defs)

text \<open>
  C9, amended: for every request, whatever its status, an approve action by a caller
  whose role is \<open>admin\<close> succeeds at approval level \<open>admin\<close>: it appends one approval row of
  that level, sets the status to \<open>admin_approved\<close> and the admin approver to the caller,
  and marks the admin step of the flow display approved. It records nothing for the
  general and the department stage: no row of these levels is appended, their steps of
  the flow display stay as they were, and the department approver of the request is
  left as it was, which for a request made by create\_request is the approver assigned
  at creation.
\<close>

theorem admin_approve_sets_admin_approved:
  assumes "get_request d rid = Some r" and "role u = ''admin''"
  shows "fst (approve_request d u rid (Some ''approve'') c) = Success
       \<and> request_approvals (snd (approve_request d u rid (Some ''approve'') c)) =
           request_approvals d @
             [\<lparr>ra_id = next_request_approval_id d, ra_request_id = rid,
               ra_approver_id = user_id u, approval_level = ''admin'',
               action = ''approve'', comments = data_get c ''''\<rparr>]
       \<and> get_request (snd (approve_request d u rid (Some ''approve'') c)) rid =
           Some (r\<lparr>status := ''admin_approved'', admin_approver_id := Some (user_id u)\<rparr>)
       \<and> map_option department_approver_id
            (get_request (snd (approve_request d u rid (Some ''approve'') c)) rid) =
           Some (department_approver_id r)
       \<and> workflow_flow (snd (approve_request d u rid (Some ''approve'') c)) =
           update_first (is_admin_flow rid) (\<lambda>f. f\<lparr>wfd_status := ''approved''\<rparr>)
             (workflow_flow d)"
proof -
  have rid: "req_id r = rid" using assms(1) by (rule get_request_req_id)
  have req: "first (\<lambda>r. req_id r = rid) (requests d) = Some r"
    using assms(1) by (simp add: get_request_def)
  let ?d1 = "add_request_approval rid (user_id u) ''admin'' ''approve'' (data_get c '''') d"
  let ?f = "\<lambda>r. r\<lparr>status := ''admin_approved'', admin_approver_id := Some (user_id u)\<rparr>"
  have res: "approve_request d u rid (Some ''approve'') c =
               (Success, set_flow_status (is_admin_flow rid) ''approved'' (set_request rid ?f ?d1))"
    using req assms(2)
    by (simp add: approve_request_def check_can_approve_def update_request_status_def
          Let_def data_get_def)
  have g: "get_request (set_request rid ?f ?d1) rid = Some (?f r)"
    by (rule get_request_set_request_same) (simp_all add: assms(1) rid)
  show ?thesis
    unfolding res using g
    by (simp add: set_flow_status_def set_request_def add_request_approval_def get_request_def)
qed

theorem admin_approve_sets_admin_approved_witness:
  "role admin_user = ''admin'' \<and> get_request db_created 1 = Some req1
   \<and> fst (approve_request db_created admin_user 1 (Some ''approve'') None) = Success
   \<and> get_request db_admin 1 =
       Some (req1\<lparr>status := ''admin_approved'', admin_approver_id := Some 1\<rparr>)
   \<and> map approval_level (request_approvals db_admin)
       = [''general'', ''department'', ''admin'', ''admin'']
   \<and> map wfd_status (workflow_flow db_admin)
       = [''completed'', ''pending'', ''pending'', ''approved'']"
proof -
  have a: "role admin_user = ''admin''" by (simp add: admin_user_def)
  have f: "map wfd_status (update_first (is_admin_flow 1) (\<lambda>f. f\<lparr>wfd_status := ''approved''\<rparr>)
             (workflow_flow db_created)) = [''completed'', ''pending'', ''pending'', ''approved'']"
    by (simp add: db_created_eq is_admin_flow_def fixture_defs)
  have r: "map approval_level (request_approvals db_created)
             = [''general'', ''department'', ''admin'']"
    by (simp add: db_created_eq fixture_defs)
  have i: "user_id admin_user = 1" by (simp add: admin_user_def)
  note t = admin_approve_sets_admin_approved [OF get_request_db_created a, of None, folded db_admin_def]
  show ?thesis
    using t a get_request_db_created f r i by simp
qed

section \<open>Deleting a request (C10)\<close>

text \<open>
  delete\_request never changes a row of the flow display, and it deletes nothing while a
  row of the flow display refers to the request.
\<close>

lemma delete_request_flow_unchanged:
  "workflow_flow (snd (delete_request d u rid)) = workflow_flow d"
  by (auto simp: delete_request_def split: option.splits)

lemma delete_request_refused_while_flow_rows:
  assumes "role u = ''admin''" and "get_request d rid = Some r"
      and "first (\<lambda>f. wfd_request_id f = rid) (workflow_flow d) = Some f"
  shows "delete_request d u rid = (Failure ServerError, d)"
  using assms by (simp add: delete_request_def get_request_def)

lemma delete_request_without_flow_rows:
  assumes "role u = ''admin''" and "get_request d rid = Some r"
      and "first (\<lambda>f. wfd_request_id f = rid) (workflow_flow d) = None"
  shows "fst (delete_request d u rid) = Success
       \<and> get_request (snd (delete_request d u rid)) rid = None
       \<and> requests (snd (delete_request d u rid)) = filter (\<lambda>x. req_id x \<noteq> rid) (requests d)
       \<and> request_approvals (snd (delete_request d u rid)) =
           filter (\<lambda>a. ra_request_id a \<noteq> rid) (request_approvals d)"
  using assms
  by (auto simp: delete_request_def get_request_def first_filter_none split: option.splits)

text \<open>
  C10: delete\_request removes the request row and every approval row of the request, and
  leaves the rows of the flow display as they were. The handler deletes the approvals
  before the request ("Delete all related approvals first") but not the rows of the
  flow display, which refer to the request through a foreign key that is not nullable.
  The request below is as create\_request made it, with its three approval rows and its
  four rows in the flow display: the admin's delete\_request is answered 500, and the
  request row and its approval rows are still there.
\<close>

theorem delete_request_blocked_by_flow_rows:
  "get_request db_created 1 = Some req1
   \<and> map wfd_request_id (workflow_flow db_created) = [1, 1, 1, 1]
   \<and> delete_request db_created admin_user 1 = (Failure ServerError, db_created)
   \<and> get_request (snd (delete_request db_created admin_user 1)) 1 = Some req1
   \<and> map ra_request_id (request_approvals (snd (delete_request db_created admin_user 1)))
       = [1, 1, 1]"
  by (simp add: delete_request_def db_created_eq handler_defs fixture_defs)

end
